theory Spec2Isabelle
  imports Complex_Main
begin

section \<open>The chat relay view: \<open>backend/chat/views.py\<close>\<close>

text \<open>
  The repository has one handler, \<open>ChatView.post\<close>. It reads the field \<open>text\<close> of the
  parsed request body, reads two environment variables, builds a provider client, issues one
  chat-completion call and translates the outcome into a \<open>Response\<close>. Everything the handler
  does not compute itself (the process environment, the provider library's constructor and its
  \<open>create\<close> operation) is a parameter of the model; every \<open>raise\<close> is a value \<open>Inl e\<close>; every
  effect is an entry of the trace the handler returns next to its result.
\<close>

subsection \<open>Parsed request bodies and Python truthiness\<close>

text \<open>
  \<open>request.data\<close> is whatever the JSON parser returned. A dict is an association list whose
  keys are distinct (\<open>map_of\<close> is the lookup).
\<close>

datatype json =
    JNull
  | JBool bool
  | JInt int
  | JFloat real
  | JStr string
  | JArr "json list"
  | JObj "(string \<times> json) list"

text \<open>\<open>not v\<close> is \<open>\<not> truthy v\<close>.\<close>

fun truthy :: "json \<Rightarrow> bool" where
  "truthy JNull = False"
| "truthy (JBool b) = b"
| "truthy (JInt i) = (i \<noteq> 0)"
| "truthy (JFloat r) = (r \<noteq> 0)"
| "truthy (JStr s) = (s \<noteq> [])"
| "truthy (JArr xs) = (xs \<noteq> [])"
| "truthy (JObj kvs) = (kvs \<noteq> [])"

fun type_name :: "json \<Rightarrow> string" where
  "type_name JNull = ''NoneType''"
| "type_name (JBool b) = ''bool''"
| "type_name (JInt i) = ''int''"
| "type_name (JFloat r) = ''float''"
| "type_name (JStr s) = ''str''"
| "type_name (JArr xs) = ''list''"
| "type_name (JObj kvs) = ''dict''"

subsection \<open>Exceptions\<close>

text \<open>
  An exception is known to the handler through two things only: the classes it is an instance
  of (what \<open>except C\<close> tests) and its \<open>str\<close> (what the f-strings print). The class hierarchy of
  the provider library is not part of the repository, so an exception carries the list of its
  classes, most specific first, as Python's method resolution order does.
\<close>

datatype py_class =
    APIConnectionError
  | RateLimitError
  | APIError
  | Exception_class
  | BaseException
  | OtherClass string

datatype py_exn = PyExn (classes: "py_class list") (str: string)

definition isinstance :: "py_exn \<Rightarrow> py_class \<Rightarrow> bool" where
  "isinstance e c = (c \<in> set (classes e))"

definition quoted :: "string \<Rightarrow> string" where
  "quoted s = CHR 0x27 # s @ [CHR 0x27]"

definition AttributeError :: "json \<Rightarrow> string \<Rightarrow> py_exn" where
  "AttributeError v attr =
     PyExn [OtherClass ''AttributeError'', Exception_class, BaseException]
       (quoted (type_name v) @ '' object has no attribute '' @ quoted attr)"

definition IndexError :: py_exn where
  "IndexError =
     PyExn [OtherClass ''IndexError'', OtherClass ''LookupError'', Exception_class, BaseException]
       ''list index out of range''"

text \<open>\<open>d.get(k, default)\<close>: only a dict has the method.\<close>

fun dict_get :: "json \<Rightarrow> string \<Rightarrow> json \<Rightarrow> py_exn + json" where
  "dict_get (JObj kvs) k d = Inr (case map_of kvs k of None \<Rightarrow> d | Some v \<Rightarrow> v)"
| "dict_get v k d = Inl (AttributeError v ''get'')"

subsection \<open>Responses, the provider's objects, effects\<close>

datatype response = Response (data: "(string \<times> json) list") (status: nat)

abbreviation HTTP_200_OK :: nat where "HTTP_200_OK \<equiv> 200"
abbreviation HTTP_400_BAD_REQUEST :: nat where "HTTP_400_BAD_REQUEST \<equiv> 400"
abbreviation HTTP_429_TOO_MANY_REQUESTS :: nat where "HTTP_429_TOO_MANY_REQUESTS \<equiv> 429"
abbreviation HTTP_500_INTERNAL_SERVER_ERROR :: nat where "HTTP_500_INTERNAL_SERVER_ERROR \<equiv> 500"
abbreviation HTTP_502_BAD_GATEWAY :: nat where "HTTP_502_BAD_GATEWAY \<equiv> 502"
abbreviation HTTP_503_SERVICE_UNAVAILABLE :: nat where "HTTP_503_SERVICE_UNAVAILABLE \<equiv> 503"

text \<open>The client is the pair of keyword arguments \<open>openai.OpenAI\<close> was built from.\<close>

record client =
  api_key :: string
  base_url :: "string option"

text \<open>A completion holds its choices; the content of a choice's message may be \<open>None\<close>.\<close>

datatype choice = Choice (message_content: "string option")

datatype chat_completion = ChatCompletion (choices: "choice list")

fun content_json :: "string option \<Rightarrow> json" where
  "content_json None = JNull"
| "content_json (Some s) = JStr s"

type_synonym message = "(string \<times> json) list"

datatype event =
    Getenv string
  | OpenAI_new string "string option"
  | Create client "message list" string
  | Print string

fun is_Create :: "event \<Rightarrow> bool" where
  "is_Create (Create c ms m) = True"
| "is_Create ev = False"

fun is_outbound :: "event \<Rightarrow> bool" where
  "is_outbound (Create c ms m) = True"
| "is_outbound (OpenAI_new k b) = True"
| "is_outbound ev = False"

text \<open>
  What the handler's surroundings do: \<open>os.getenv\<close>, whether the constructor
  \<open>openai.OpenAI(api_key=, base_url=)\<close> raises, and what
  \<open>client.chat.completions.create(messages=, model=)\<close> returns or raises.
\<close>

record externals =
  getenv :: "string \<Rightarrow> string option"
  OpenAI_raises :: "string \<Rightarrow> string option \<Rightarrow> py_exn option"
  create :: "client \<Rightarrow> message list \<Rightarrow> string \<Rightarrow> py_exn + chat_completion"

type_synonym outcome = "(py_exn + response) \<times> event list"

subsection \<open>The handler\<close>

text \<open>
  The four \<open>except\<close> clauses, in the order of the source. An exception that matches none of
  them leaves the \<open>try\<close> statement unhandled.
\<close>

definition except_clauses :: "py_exn \<Rightarrow> outcome" where
  "except_clauses e =
     (if isinstance e APIConnectionError then
        (Inr (Response
           [(''error'', JStr ''Failed to connect to OpenAI API. Please check your network connection.'')]
           HTTP_503_SERVICE_UNAVAILABLE),
         [Print (''OpenAI Connection Error: '' @ str e)])
      else if isinstance e RateLimitError then
        (Inr (Response
           [(''error'', JStr ''OpenAI API rate limit exceeded. Please try again later.'')]
           HTTP_429_TOO_MANY_REQUESTS),
         [Print (''OpenAI Rate Limit Error: '' @ str e)])
      else if isinstance e APIError then
        (Inr (Response
           [(''error'', JStr (''OpenAI API returned an error: '' @ str e))]
           HTTP_502_BAD_GATEWAY),
         [Print (''OpenAI API Error: '' @ str e)])
      else if isinstance e Exception_class then
        (Inr (Response
           [(''error'', JStr ''An unexpected error occurred on the server.'')]
           HTTP_500_INTERNAL_SERVER_ERROR),
         [Print (''Unexpected Error: '' @ str e)])
      else (Inl e, []))"

text \<open>The body of the \<open>try\<close>: the call, then \<open>choices[0].message.content\<close>.\<close>

definition try_body :: "externals \<Rightarrow> client \<Rightarrow> json \<Rightarrow> outcome" where
  "try_body w cl user_text =
     (let messages = [[(''role'', JStr ''user''), (''content'', user_text)]];
          model = ''deepseek/deepseek-r1-0528:free''
      in case create w cl messages model of
           Inl e \<Rightarrow> (Inl e, [Create cl messages model])
         | Inr completion \<Rightarrow>
             (case choices completion of
                [] \<Rightarrow> (Inl IndexError, [Create cl messages model])
              | c # cs \<Rightarrow>
                  (Inr (Response [(''response'', content_json (message_content c))] HTTP_200_OK),
                   [Create cl messages model])))"

definition try_except :: "externals \<Rightarrow> client \<Rightarrow> json \<Rightarrow> outcome" where
  "try_except w cl user_text =
     (case try_body w cl user_text of
        (Inr r, evs) \<Rightarrow> (Inr r, evs)
      | (Inl e, evs) \<Rightarrow> (case except_clauses e of (r, evs') \<Rightarrow> (r, evs @ evs')))"

definition post :: "externals \<Rightarrow> json \<Rightarrow> outcome" where
  "post w request_data =
     (case dict_get request_data ''text'' (JStr '''') of
        Inl e \<Rightarrow> (Inl e, [])
      | Inr user_text \<Rightarrow>
          if \<not> truthy user_text then
            (Inr (Response [(''error'', JStr ''No text provided'')] HTTP_400_BAD_REQUEST), [])
          else
            let key = getenv w ''OPENAI_API_KEY'';
                url = getenv w ''BASE_URL'';
                reads = [Getenv ''OPENAI_API_KEY'', Getenv ''BASE_URL''];
                missing =
                  (Inr (Response
                     [(''error'', JStr ''Server configuration error: OpenAI API key missing'')]
                     HTTP_500_INTERNAL_SERVER_ERROR),
                   reads)
            in (case key of
                  None \<Rightarrow> missing
                | Some k \<Rightarrow>
                    if k = [] then missing
                    else
                      (case OpenAI_raises w k url of
                         Some e \<Rightarrow> (Inl e, reads @ [OpenAI_new k url])
                       | None \<Rightarrow>
                           (case try_except w \<lparr>api_key = k, base_url = url\<rparr> user_text of
                              (r, evs) \<Rightarrow> (r, reads @ [OpenAI_new k url] @ evs)))))"

subsection \<open>The specification's side: the error table and the ordered match\<close>

text \<open>
  The failure categories of the specification, in its priority order, and the row of the error
  table each one maps to. \<open>classify\<close> is the single ordered match the specification describes:
  the first category of the priority order the failure belongs to.
\<close>

datatype category = Connection | RateLimit | ApiError | Unexpected

definition priority_order :: "category list" where
  "priority_order = [Connection, RateLimit, ApiError, Unexpected]"

fun belongs :: "py_exn \<Rightarrow> category \<Rightarrow> bool" where
  "belongs e Connection = isinstance e APIConnectionError"
| "belongs e RateLimit = isinstance e RateLimitError"
| "belongs e ApiError = isinstance e APIError"
| "belongs e Unexpected = isinstance e Exception_class"

definition classify :: "py_exn \<Rightarrow> category option" where
  "classify e = find (belongs e) priority_order"

fun category_response :: "category \<Rightarrow> py_exn \<Rightarrow> response" where
  "category_response Connection e =
     Response
       [(''error'', JStr ''Failed to connect to OpenAI API. Please check your network connection.'')]
       503"
| "category_response RateLimit e =
     Response [(''error'', JStr ''OpenAI API rate limit exceeded. Please try again later.'')] 429"
| "category_response ApiError e =
     Response [(''error'', JStr (''OpenAI API returned an error: '' @ str e))] 502"
| "category_response Unexpected e =
     Response [(''error'', JStr ''An unexpected error occurred on the server.'')] 500"

definition starts_with :: "string \<Rightarrow> string \<Rightarrow> bool" where
  "starts_with p s = (take (length p) s = p)"

fun api_error_row :: "response \<Rightarrow> bool" where
  "api_error_row (Response [(k, JStr s)] st) =
     (k = ''error'' \<and> st = 502 \<and> starts_with ''OpenAI API returned an error: '' s)"
| "api_error_row r = False"

text \<open>The six rows of the error table.\<close>

definition error_table :: "response \<Rightarrow> bool" where
  "error_table r =
     (r = Response [(''error'', JStr ''No text provided'')] 400
      \<or> r = Response [(''error'', JStr ''Server configuration error: OpenAI API key missing'')] 500
      \<or> r = Response
            [(''error'', JStr ''Failed to connect to OpenAI API. Please check your network connection.'')]
            503
      \<or> r = Response [(''error'', JStr ''OpenAI API rate limit exceeded. Please try again later.'')] 429
      \<or> api_error_row r
      \<or> r = Response [(''error'', JStr ''An unexpected error occurred on the server.'')] 500)"

text \<open>
  Modelled from the spec: the endpoint a client built by the provider library talks to. The
  library is not part of the repository; the specification says that a base URL, when given,
  replaces the provider's default endpoint.
\<close>

definition endpoint :: "string \<Rightarrow> client \<Rightarrow> string" where
  "endpoint provider_default cl =
     (case base_url cl of None \<Rightarrow> provider_default | Some u \<Rightarrow> u)"

subsection \<open>Example surroundings\<close>

definition env_none :: "string \<Rightarrow> string option" where
  "env_none name = None"

definition env_key :: "string \<Rightarrow> string option" where
  "env_key name = (if name = ''OPENAI_API_KEY'' then Some ''sk-test'' else None)"

definition env_empty_key :: "string \<Rightarrow> string option" where
  "env_empty_key name = (if name = ''OPENAI_API_KEY'' then Some '''' else None)"

definition env_proxy :: "string \<Rightarrow> string option" where
  "env_proxy name =
     (if name = ''OPENAI_API_KEY'' then Some ''sk-test''
      else if name = ''BASE_URL'' then Some ''https://openrouter.ai/api/v1''
      else None)"

definition env_bad_url :: "string \<Rightarrow> string option" where
  "env_bad_url name =
     (if name = ''OPENAI_API_KEY'' then Some ''sk-test''
      else if name = ''BASE_URL'' then Some ''http://localhost:abc''
      else None)"

definition hello_request :: json where
  "hello_request = JObj [(''text'', JStr ''Hi'')]"

definition w_hello :: externals where
  "w_hello =
     \<lparr>getenv = env_key,
      OpenAI_raises = (\<lambda>k b. None),
      create = (\<lambda>c ms m. Inr (ChatCompletion [Choice (Some ''Hello!'')]))\<rparr>"

definition w_unset :: externals where
  "w_unset = w_hello\<lparr>getenv := env_none\<rparr>"

definition w_empty_key :: externals where
  "w_empty_key = w_hello\<lparr>getenv := env_empty_key\<rparr>"

definition w_proxy :: externals where
  "w_proxy = w_hello\<lparr>getenv := env_proxy\<rparr>"

definition w_no_choices :: externals where
  "w_no_choices = w_hello\<lparr>create := (\<lambda>c ms m. Inr (ChatCompletion []))\<rparr>"

text \<open>Failures of the provider call, with the classes the provider library gives them.\<close>

definition connection_failure :: py_exn where
  "connection_failure =
     PyExn [APIConnectionError, APIError, OtherClass ''OpenAIError'', Exception_class, BaseException]
       ''Connection error.''"

definition rate_limit_failure :: py_exn where
  "rate_limit_failure =
     PyExn [RateLimitError, OtherClass ''APIStatusError'', APIError, OtherClass ''OpenAIError'',
            Exception_class, BaseException]
       ''Rate limit exceeded: free-models-per-day''"

definition bad_request_failure :: py_exn where
  "bad_request_failure =
     PyExn [OtherClass ''BadRequestError'', OtherClass ''APIStatusError'', APIError,
            OtherClass ''OpenAIError'', Exception_class, BaseException]
       ''bad request body''"

definition validation_failure :: py_exn where
  "validation_failure =
     PyExn [OtherClass ''ValidationError'', OtherClass ''ValueError'', Exception_class, BaseException]
       ''1 validation error for ChatCompletion''"

definition invalid_url_failure :: py_exn where
  "invalid_url_failure =
     PyExn [OtherClass ''InvalidURL'', Exception_class, BaseException] ''Invalid port''"

definition system_exit :: py_exn where
  "system_exit = PyExn [OtherClass ''SystemExit'', BaseException] ''1''"

definition w_raise :: "py_exn \<Rightarrow> externals" where
  "w_raise e = w_hello\<lparr>create := (\<lambda>c ms m. Inl e)\<rparr>"

text \<open>A constructor that rejects the base URL it is given.\<close>

definition w_bad_url :: externals where
  "w_bad_url =
     w_hello\<lparr>getenv := env_bad_url,
             OpenAI_raises := (\<lambda>k b. if b = None then None else Some invalid_url_failure)\<rparr>"


section \<open>Properties\<close>

abbreviation user_messages :: "json \<Rightarrow> message list" where
  "user_messages t \<equiv> [[(''role'', JStr ''user''), (''content'', t)]]"

abbreviation model_id :: string where
  "model_id \<equiv> ''deepseek/deepseek-r1-0528:free''"

abbreviation config_reads :: "event list" where
  "config_reads \<equiv> [Getenv ''OPENAI_API_KEY'', Getenv ''BASE_URL'']"

lemma env_key_simps:
  "env_key ''OPENAI_API_KEY'' = Some ''sk-test''"
  "env_key ''BASE_URL'' = None"
  by (simp_all add: env_key_def)

lemma env_proxy_simps:
  "env_proxy ''OPENAI_API_KEY'' = Some ''sk-test''"
  "env_proxy ''BASE_URL'' = Some ''https://openrouter.ai/api/v1''"
  by (simp_all add: env_proxy_def)

lemma env_bad_url_simps:
  "env_bad_url ''OPENAI_API_KEY'' = Some ''sk-test''"
  "env_bad_url ''BASE_URL'' = Some ''http://localhost:abc''"
  by (simp_all add: env_bad_url_def)

lemma env_empty_key_simps:
  "env_empty_key ''OPENAI_API_KEY'' = Some []"
  "env_empty_key ''BASE_URL'' = None"
  by (simp_all add: env_empty_key_def)

subsection \<open>The path through the handler once text, key and client are there\<close>

lemma post_reaches_try:
  assumes "map_of kvs ''text'' = Some (JStr t)" and "t \<noteq> []"
    and "getenv w ''OPENAI_API_KEY'' = Some k" and "k \<noteq> []"
    and "OpenAI_raises w k (getenv w ''BASE_URL'') = None"
  shows "post w (JObj kvs) =
           (case try_except w \<lparr>api_key = k, base_url = getenv w ''BASE_URL''\<rparr> (JStr t) of
              (r, evs) \<Rightarrow> (r, config_reads @ [OpenAI_new k (getenv w ''BASE_URL'')] @ evs))"
  using assms by (simp add: post_def Let_def)

lemma try_except_raise:
  assumes "create w cl (user_messages t) model_id = Inl e"
  shows "try_except w cl t =
           (case except_clauses e of
              (r, evs) \<Rightarrow> (r, Create cl (user_messages t) model_id # evs))"
  using assms by (simp add: try_except_def try_body_def)

lemma try_except_return:
  assumes "create w cl (user_messages t) model_id = Inr (ChatCompletion cs)"
  shows "try_except w cl t =
           (case cs of
              [] \<Rightarrow> (case except_clauses IndexError of
                       (r, evs) \<Rightarrow> (r, Create cl (user_messages t) model_id # evs))
            | c # cs' \<Rightarrow>
                (Inr (Response [(''response'', content_json (message_content c))] 200),
                 [Create cl (user_messages t) model_id]))"
  using assms by (simp add: try_except_def try_body_def split: list.split)

lemma except_clauses_no_outbound: "filter is_outbound (snd (except_clauses e)) = []"
  by (simp add: except_clauses_def)

lemma try_except_outbound:
  "filter is_outbound (snd (try_except w cl t)) = [Create cl (user_messages t) model_id]"
proof (cases "create w cl (user_messages t) model_id")
  case (Inl e)
  then show ?thesis
    using except_clauses_no_outbound [of e]
    by (cases "except_clauses e") (simp add: try_except_raise)
next
  case (Inr completion)
  then obtain cs where "create w cl (user_messages t) model_id = Inr (ChatCompletion cs)"
    by (cases completion) simp
  then show ?thesis
    using except_clauses_no_outbound [of IndexError]
    by (cases "except_clauses IndexError"; cases cs) (simp_all add: try_except_return)
qed

lemma IndexError_unexpected:
  "except_clauses IndexError =
     (Inr (Response [(''error'', JStr ''An unexpected error occurred on the server.'')] 500),
      [Print ''Unexpected Error: list index out of range''])"
  by (simp add: except_clauses_def IndexError_def isinstance_def)

subsection \<open>The claims\<close>




text \<open>
  C1. For a request with a non-empty text, with the API key present and the client built, when
  the provider call returns a completion whose first choice has the content \<open>content\<close>: the
  handler returns status 200 with the body \<open>{"response": s}\<close> when the content is the string
  \<open>s\<close> and \<open>{"response": null}\<close> when it is \<open>None\<close>, and its trace holds exactly one
  chat-completion call, made with the single message \<open>{role: "user", content: text}\<close> and the
  model \<open>"deepseek/deepseek-r1-0528:free"\<close>.
\<close>

theorem C1_success:
  assumes "map_of kvs ''text'' = Some (JStr t)" and "t \<noteq> []"
    and "getenv w ''OPENAI_API_KEY'' = Some k" and "k \<noteq> []"
    and "OpenAI_raises w k (getenv w ''BASE_URL'') = None"
    and "create w \<lparr>api_key = k, base_url = getenv w ''BASE_URL''\<rparr>
           [[(''role'', JStr ''user''), (''content'', JStr t)]]
           ''deepseek/deepseek-r1-0528:free'' = Inr (ChatCompletion (Choice content # cs))"
  shows "fst (post w (JObj kvs)) =
           Inr (Response
             [(''response'', (case content of None \<Rightarrow> JNull | Some s \<Rightarrow> JStr s))] 200)
         \<and> filter is_Create (snd (post w (JObj kvs))) =
             [Create \<lparr>api_key = k, base_url = getenv w ''BASE_URL''\<rparr>
                [[(''role'', JStr ''user''), (''content'', JStr t)]]
                ''deepseek/deepseek-r1-0528:free'']"
  using assms by (cases content) (simp_all add: post_reaches_try try_except_return)

theorem C1_success_witness:
  "fst (post w_hello (JObj [(''text'', JStr ''Hi'')])) =
     Inr (Response [(''response'', JStr ''Hello!'')] 200)
   \<and> filter is_Create (snd (post w_hello (JObj [(''text'', JStr ''Hi'')]))) =
       [Create \<lparr>api_key = ''sk-test'', base_url = None\<rparr>
          [[(''role'', JStr ''user''), (''content'', JStr ''Hi'')]]
          ''deepseek/deepseek-r1-0528:free'']"
  using C1_success [of "[(''text'', JStr ''Hi'')]" "''Hi''" w_hello "''sk-test''"
      "Some ''Hello!''" "[]"]
  by (simp add: w_hello_def env_key_simps)

text \<open>
  C3. For a request with a non-empty text, when \<open>OPENAI_API_KEY\<close> is unset the handler returns
  exactly the body \<open>{"error": "Server configuration error: OpenAI API key missing"}\<close> with
  status 500; its only effects are the two environment reads, so no client is built and no
  provider call is made.
\<close>

theorem C3_key_unset:
  assumes "map_of kvs ''text'' = Some (JStr t)" and "t \<noteq> []"
    and "getenv w ''OPENAI_API_KEY'' = None"
  shows "post w (JObj kvs) =
           (Inr (Response
              [(''error'', JStr ''Server configuration error: OpenAI API key missing'')] 500),
            [Getenv ''OPENAI_API_KEY'', Getenv ''BASE_URL''])
         \<and> filter is_outbound (snd (post w (JObj kvs))) = []"
  using assms by (simp add: post_def Let_def)

theorem C3_key_unset_witness:
  "post w_unset (JObj [(''text'', JStr ''Hi'')]) =
     (Inr (Response
        [(''error'', JStr ''Server configuration error: OpenAI API key missing'')] 500),
      [Getenv ''OPENAI_API_KEY'', Getenv ''BASE_URL''])
   \<and> filter is_outbound (snd (post w_unset (JObj [(''text'', JStr ''Hi'')]))) = []"
  using C3_key_unset [of "[(''text'', JStr ''Hi'')]" "''Hi''" w_unset]
  by (simp add: w_unset_def w_hello_def env_none_def)

text \<open>
  C9. For a request with a non-empty text, when \<open>OPENAI_API_KEY\<close> is set to the empty string
  the handler answers as for an unset key: status 500 with the body
  \<open>{"error": "Server configuration error: OpenAI API key missing"}\<close>, and neither a client nor
  a provider call.
\<close>

theorem C9_key_empty:
  assumes "map_of kvs ''text'' = Some (JStr t)" and "t \<noteq> []"
    and "getenv w ''OPENAI_API_KEY'' = Some ''''"
  shows "post w (JObj kvs) =
           (Inr (Response
              [(''error'', JStr ''Server configuration error: OpenAI API key missing'')] 500),
            [Getenv ''OPENAI_API_KEY'', Getenv ''BASE_URL''])
         \<and> filter is_outbound (snd (post w (JObj kvs))) = []"
  using assms by (simp add: post_def Let_def)

theorem C9_key_empty_witness:
  "post w_empty_key (JObj [(''text'', JStr ''Hi'')]) =
     (Inr (Response
        [(''error'', JStr ''Server configuration error: OpenAI API key missing'')] 500),
      [Getenv ''OPENAI_API_KEY'', Getenv ''BASE_URL''])
   \<and> filter is_outbound (snd (post w_empty_key (JObj [(''text'', JStr ''Hi'')]))) = []"
  using C9_key_empty [of "[(''text'', JStr ''Hi'')]" "''Hi''" w_empty_key]
  by (simp add: w_empty_key_def w_hello_def env_empty_key_simps)

text \<open>
  C10. For a request with valid text and key, when the provider call returns a completion
  whose list of choices is empty, indexing it raises \<open>IndexError\<close> inside the \<open>try\<close>; the last
  \<open>except\<close> clause absorbs it and the caller receives status 500 with the body
  \<open>{"error": "An unexpected error occurred on the server."}\<close>, not a 200.
\<close>

theorem C10_no_choices:
  assumes "map_of kvs ''text'' = Some (JStr t)" and "t \<noteq> []"
    and "getenv w ''OPENAI_API_KEY'' = Some k" and "k \<noteq> []"
    and "OpenAI_raises w k (getenv w ''BASE_URL'') = None"
    and "create w \<lparr>api_key = k, base_url = getenv w ''BASE_URL''\<rparr>
           [[(''role'', JStr ''user''), (''content'', JStr t)]]
           ''deepseek/deepseek-r1-0528:free'' = Inr (ChatCompletion [])"
  shows "fst (post w (JObj kvs)) =
           Inr (Response [(''error'', JStr ''An unexpected error occurred on the server.'')] 500)"
  using assms by (simp add: post_reaches_try try_except_return IndexError_unexpected)

theorem C10_no_choices_witness:
  "fst (post w_no_choices (JObj [(''text'', JStr ''Hi'')])) =
     Inr (Response [(''error'', JStr ''An unexpected error occurred on the server.'')] 500)"
  using C10_no_choices [of "[(''text'', JStr ''Hi'')]" "''Hi''" w_no_choices "''sk-test''"]
  by (simp add: w_no_choices_def w_hello_def env_key_simps)

text \<open>
  C5. For a request with valid text and key, when the provider call raises an API error that
  is neither a connection error nor a rate-limit error, with message \<open>m\<close>, the handler returns
  status 502 with the body \<open>{"error": "OpenAI API returned an error: " ++ m}\<close>.
\<close>

theorem C5_api_error:
  assumes "map_of kvs ''text'' = Some (JStr t)" and "t \<noteq> []"
    and "getenv w ''OPENAI_API_KEY'' = Some k" and "k \<noteq> []"
    and "OpenAI_raises w k (getenv w ''BASE_URL'') = None"
    and "create w \<lparr>api_key = k, base_url = getenv w ''BASE_URL''\<rparr>
           [[(''role'', JStr ''user''), (''content'', JStr t)]]
           ''deepseek/deepseek-r1-0528:free'' = Inl e"
    and "isinstance e APIError"
    and "\<not> isinstance e APIConnectionError" and "\<not> isinstance e RateLimitError"
  shows "fst (post w (JObj kvs)) =
           Inr (Response [(''error'', JStr (''OpenAI API returned an error: '' @ str e))] 502)"
  using assms by (simp add: post_reaches_try try_except_raise except_clauses_def)

theorem C5_api_error_witness:
  "fst (post (w_raise bad_request_failure) (JObj [(''text'', JStr ''Hi'')])) =
     Inr (Response [(''error'', JStr ''OpenAI API returned an error: bad request body'')] 502)"
  using C5_api_error [of "[(''text'', JStr ''Hi'')]" "''Hi''" "w_raise bad_request_failure"
      "''sk-test''" bad_request_failure]
  by (simp add: w_raise_def w_hello_def env_key_simps bad_request_failure_def isinstance_def)

text \<open>
  C6. For a request with valid text and key: a connection failure of the provider call yields
  status 503 with exactly the message "Failed to connect to OpenAI API. Please check your
  network connection."; a rate-limit failure (one that is not also a connection failure, as no
  failure of the provider library is) yields status 429 with exactly the message "OpenAI API
  rate limit exceeded. Please try again later.". Both bodies are constants: nothing of the
  failure's own text reaches the caller.
\<close>

theorem C6_connection_and_rate_limit:
  assumes "map_of kvs ''text'' = Some (JStr t)" and "t \<noteq> []"
    and "getenv w ''OPENAI_API_KEY'' = Some k" and "k \<noteq> []"
    and "OpenAI_raises w k (getenv w ''BASE_URL'') = None"
    and "create w \<lparr>api_key = k, base_url = getenv w ''BASE_URL''\<rparr>
           [[(''role'', JStr ''user''), (''content'', JStr t)]]
           ''deepseek/deepseek-r1-0528:free'' = Inl e"
  shows "(isinstance e APIConnectionError \<longrightarrow>
            fst (post w (JObj kvs)) =
              Inr (Response
                [(''error'',
                  JStr ''Failed to connect to OpenAI API. Please check your network connection.'')]
                503))
         \<and> (isinstance e RateLimitError \<and> \<not> isinstance e APIConnectionError \<longrightarrow>
              fst (post w (JObj kvs)) =
                Inr (Response
                  [(''error'', JStr ''OpenAI API rate limit exceeded. Please try again later.'')]
                  429))"
  using assms by (simp add: post_reaches_try try_except_raise except_clauses_def)

theorem C6_connection_and_rate_limit_witness:
  "fst (post (w_raise connection_failure) (JObj [(''text'', JStr ''Hi'')])) =
     Inr (Response
       [(''error'',
         JStr ''Failed to connect to OpenAI API. Please check your network connection.'')]
       503)
   \<and> fst (post (w_raise rate_limit_failure) (JObj [(''text'', JStr ''Hi'')])) =
       Inr (Response
         [(''error'', JStr ''OpenAI API rate limit exceeded. Please try again later.'')]
         429)"
  using
    C6_connection_and_rate_limit [of "[(''text'', JStr ''Hi'')]" "''Hi''"
      "w_raise connection_failure" "''sk-test''" connection_failure]
    C6_connection_and_rate_limit [of "[(''text'', JStr ''Hi'')]" "''Hi''"
      "w_raise rate_limit_failure" "''sk-test''" rate_limit_failure]
  by (simp add: w_raise_def w_hello_def env_key_simps connection_failure_def
      rate_limit_failure_def isinstance_def)

text \<open>
  C7. The \<open>except\<close> clauses implement the ordered match of the specification: for a request
  with valid text and key, when the provider call raises \<open>e\<close> and \<open>cat\<close> is the first category
  of the priority order connection, rate limit, API error, unexpected that \<open>e\<close> belongs to, the
  handler returns the response of \<open>cat\<close>, whatever later categories \<open>e\<close> belongs to as well.
\<close>

theorem C7_priority_order:
  assumes "map_of kvs ''text'' = Some (JStr t)" and "t \<noteq> []"
    and "getenv w ''OPENAI_API_KEY'' = Some k" and "k \<noteq> []"
    and "OpenAI_raises w k (getenv w ''BASE_URL'') = None"
    and "create w \<lparr>api_key = k, base_url = getenv w ''BASE_URL''\<rparr>
           [[(''role'', JStr ''user''), (''content'', JStr t)]]
           ''deepseek/deepseek-r1-0528:free'' = Inl e"
    and "classify e = Some cat"
  shows "fst (post w (JObj kvs)) = Inr (category_response cat e)"
proof -
  have "fst (except_clauses e) = Inr (category_response cat e)"
    using \<open>classify e = Some cat\<close>
    by (auto simp: classify_def priority_order_def except_clauses_def split: if_splits)
  then show ?thesis
    using assms(1-6)
    by (cases "except_clauses e") (simp add: post_reaches_try try_except_raise)
qed

theorem C7_priority_order_witness:
  "classify rate_limit_failure = Some RateLimit
   \<and> belongs rate_limit_failure ApiError
   \<and> fst (post (w_raise rate_limit_failure) (JObj [(''text'', JStr ''Hi'')])) =
       Inr (Response
         [(''error'', JStr ''OpenAI API rate limit exceeded. Please try again later.'')] 429)"
  using C7_priority_order [of "[(''text'', JStr ''Hi'')]" "''Hi''" "w_raise rate_limit_failure"
      "''sk-test''" rate_limit_failure RateLimit]
  by (simp add: w_raise_def w_hello_def env_key_simps rate_limit_failure_def isinstance_def
      classify_def priority_order_def)

text \<open>
  C8. For a request with valid text and key, the handler builds one client, with the value of
  \<open>BASE_URL\<close> as its base URL, and makes its one call through that client: when \<open>BASE_URL\<close> is
  set to \<open>u\<close> the client targets \<open>u\<close>, when it is unset the client is given no base URL and
  targets the provider's default.
\<close>

theorem C8_base_url:
  assumes "map_of kvs ''text'' = Some (JStr t)" and "t \<noteq> []"
    and "getenv w ''OPENAI_API_KEY'' = Some k" and "k \<noteq> []"
    and "OpenAI_raises w k (getenv w ''BASE_URL'') = None"
    and "cl = \<lparr>api_key = k, base_url = getenv w ''BASE_URL''\<rparr>"
  shows "filter is_outbound (snd (post w (JObj kvs))) =
           [OpenAI_new k (getenv w ''BASE_URL''),
            Create cl [[(''role'', JStr ''user''), (''content'', JStr t)]]
              ''deepseek/deepseek-r1-0528:free'']
         \<and> (\<forall>u. getenv w ''BASE_URL'' = Some u \<longrightarrow> endpoint provider_default cl = u)
         \<and> (getenv w ''BASE_URL'' = None \<longrightarrow> endpoint provider_default cl = provider_default)"
proof -
  have "filter is_outbound (snd (post w (JObj kvs))) =
          OpenAI_new k (getenv w ''BASE_URL'') # filter is_outbound (snd (try_except w cl (JStr t)))"
    using assms by (cases "try_except w cl (JStr t)") (simp add: post_reaches_try)
  then show ?thesis
    using \<open>cl = \<lparr>api_key = k, base_url = getenv w ''BASE_URL''\<rparr>\<close>
    by (simp add: try_except_outbound endpoint_def)
qed

theorem C8_base_url_witness:
  "filter is_outbound (snd (post w_proxy (JObj [(''text'', JStr ''Hi'')]))) =
     [OpenAI_new ''sk-test'' (Some ''https://openrouter.ai/api/v1''),
      Create \<lparr>api_key = ''sk-test'', base_url = Some ''https://openrouter.ai/api/v1''\<rparr>
        [[(''role'', JStr ''user''), (''content'', JStr ''Hi'')]]
        ''deepseek/deepseek-r1-0528:free'']
   \<and> endpoint ''https://api.openai.com/v1''
         \<lparr>api_key = ''sk-test'', base_url = Some ''https://openrouter.ai/api/v1''\<rparr> =
       ''https://openrouter.ai/api/v1''
   \<and> filter is_outbound (snd (post w_hello (JObj [(''text'', JStr ''Hi'')]))) =
       [OpenAI_new ''sk-test'' None,
        Create \<lparr>api_key = ''sk-test'', base_url = None\<rparr>
          [[(''role'', JStr ''user''), (''content'', JStr ''Hi'')]]
          ''deepseek/deepseek-r1-0528:free'']
   \<and> endpoint ''https://api.openai.com/v1'' \<lparr>api_key = ''sk-test'', base_url = None\<rparr> =
       ''https://api.openai.com/v1''"
  using
    C8_base_url [of "[(''text'', JStr ''Hi'')]" "''Hi''" w_proxy "''sk-test''"
      "\<lparr>api_key = ''sk-test'', base_url = Some ''https://openrouter.ai/api/v1''\<rparr>"
      "''https://api.openai.com/v1''"]
    C8_base_url [of "[(''text'', JStr ''Hi'')]" "''Hi''" w_hello "''sk-test''"
      "\<lparr>api_key = ''sk-test'', base_url = None\<rparr>" "''https://api.openai.com/v1''"]
  by (simp add: w_proxy_def w_hello_def env_key_simps env_proxy_simps)

subsection \<open>What the \<open>try\<close> statement catches and what it does not\<close>

lemma except_clauses_Exception:
  assumes "isinstance e Exception_class"
  shows "\<exists>r evs. except_clauses e = (Inr r, evs) \<and> error_table r"
  using assms by (simp add: except_clauses_def error_table_def starts_with_def)

lemma except_clauses_unclassified:
  assumes "isinstance e Exception_class"
    and "\<not> isinstance e APIConnectionError" and "\<not> isinstance e RateLimitError"
    and "\<not> isinstance e APIError"
  shows "fst (except_clauses e) =
           Inr (Response [(''error'', JStr ''An unexpected error occurred on the server.'')] 500)"
  using assms by (simp add: except_clauses_def)

text \<open>A failure inside the \<open>try\<close>, of the call or of \<open>choices[0]\<close>, goes to the clauses.\<close>

lemma try_except_failure:
  assumes "create w cl (user_messages t) model_id = Inl e
           \<or> (create w cl (user_messages t) model_id = Inr (ChatCompletion []) \<and> e = IndexError)"
  shows "try_except w cl t =
           (case except_clauses e of
              (r, evs) \<Rightarrow> (r, Create cl (user_messages t) model_id # evs))"
  using assms by (auto simp: try_except_raise try_except_return)

text \<open>
  C4, as the claim states it, fails. The \<open>try\<close> statement starts after the client is built, and
  its last clause is \<open>except Exception\<close>. A body that is not an object makes \<open>.get\<close> raise on the
  first line of the handler; a constructor that rejects its arguments raises before the \<open>try\<close>;
  an exception raised during the call that is no instance of \<open>Exception\<close> (\<open>SystemExit\<close>)
  matches no clause. Each of the three leaves the handler as an exception.
\<close>

theorem C4_uncaught_counterexample:
  "fst (post w_hello (JArr [])) = Inl (AttributeError (JArr []) ''get'')
   \<and> fst (post w_bad_url hello_request) = Inl invalid_url_failure
   \<and> fst (post (w_raise system_exit) hello_request) = Inl system_exit"
  by (simp add: post_def hello_request_def w_bad_url_def w_raise_def w_hello_def
      env_key_simps env_bad_url_simps try_except_def try_body_def except_clauses_def
      system_exit_def isinstance_def)

text \<open>
  C4, amended. Take a request whose body is an object with a non-empty text, with the key
  present and the client built without raising. Every failure \<open>e\<close> inside the \<open>try\<close> that is an
  instance of \<open>Exception\<close>, whether raised by the chat-completion call or by taking the first
  of an empty list of choices, is caught: the handler returns a response, and that response is
  a row of the error table, the one of a category \<open>e\<close> belongs to, never a success. In
  particular, when \<open>e\<close> is no connection,
  rate-limit or API error, the response is status 500 with the body
  \<open>{"error": "An unexpected error occurred on the server."}\<close>.
\<close>

theorem C4_guarded_failures_caught:
  assumes "dict_get request_data ''text'' (JStr '''') = Inr user_text" and "truthy user_text"
    and "getenv w ''OPENAI_API_KEY'' = Some k" and "k \<noteq> []"
    and "OpenAI_raises w k (getenv w ''BASE_URL'') = None"
    and "create w \<lparr>api_key = k, base_url = getenv w ''BASE_URL''\<rparr>
           [[(''role'', JStr ''user''), (''content'', user_text)]]
           ''deepseek/deepseek-r1-0528:free'' = Inl e
         \<or> (create w \<lparr>api_key = k, base_url = getenv w ''BASE_URL''\<rparr>
               [[(''role'', JStr ''user''), (''content'', user_text)]]
               ''deepseek/deepseek-r1-0528:free'' = Inr (ChatCompletion [])
             \<and> e = IndexError)"
    and "isinstance e Exception_class"
  shows "\<exists>r. fst (post w request_data) = Inr r
           \<and> error_table r
           \<and> status r \<noteq> 200
           \<and> (\<exists>cat. belongs e cat \<and> r = category_response cat e)
           \<and> (\<not> isinstance e APIConnectionError \<and> \<not> isinstance e RateLimitError
                 \<and> \<not> isinstance e APIError
               \<longrightarrow> r = Response
                     [(''error'', JStr ''An unexpected error occurred on the server.'')] 500)"
proof -
  let ?cl = "\<lparr>api_key = k, base_url = getenv w ''BASE_URL''\<rparr>"
  obtain r evs where clause: "except_clauses e = (Inr r, evs)" and row: "error_table r"
    using except_clauses_Exception [OF assms(7)] by blast
  have "try_except w ?cl user_text = (Inr r, Create ?cl (user_messages user_text) model_id # evs)"
    using try_except_failure [OF assms(6)] clause by simp
  then have res: "fst (post w request_data) = Inr r"
    using assms(1-5) by (simp add: post_def Let_def)
  have not_ok: "status r \<noteq> 200"
    using clause by (auto simp: except_clauses_def split: if_splits)
  have "classify e \<noteq> None"
    using assms(7) by (simp add: classify_def priority_order_def)
  then obtain cat where first: "classify e = Some cat"
    by blast
  then have member: "belongs e cat"
    by (auto simp: classify_def priority_order_def split: if_splits)
  have "fst (except_clauses e) = Inr (category_response cat e)"
    using first
    by (auto simp: classify_def priority_order_def except_clauses_def split: if_splits)
  with clause have its_row: "r = category_response cat e"
    by simp
  have "r = Response [(''error'', JStr ''An unexpected error occurred on the server.'')] 500"
    if "\<not> isinstance e APIConnectionError" and "\<not> isinstance e RateLimitError"
      and "\<not> isinstance e APIError"
    using except_clauses_unclassified [OF assms(7) that] clause by simp
  with res row not_ok member its_row show ?thesis
    by blast
qed

theorem C4_guarded_failures_caught_witness:
  "fst (post (w_raise validation_failure) hello_request) =
     Inr (Response [(''error'', JStr ''An unexpected error occurred on the server.'')] 500)
   \<and> fst (post w_no_choices hello_request) =
       Inr (Response [(''error'', JStr ''An unexpected error occurred on the server.'')] 500)"
proof -
  have "fst (post (w_raise validation_failure) hello_request) =
          Inr (Response [(''error'', JStr ''An unexpected error occurred on the server.'')] 500)"
    using C4_guarded_failures_caught [of hello_request "JStr ''Hi''" "w_raise validation_failure"
        "''sk-test''" validation_failure]
    by (auto simp: hello_request_def w_raise_def w_hello_def env_key_simps
        validation_failure_def isinstance_def)
  moreover have "fst (post w_no_choices hello_request) =
          Inr (Response [(''error'', JStr ''An unexpected error occurred on the server.'')] 500)"
    using C4_guarded_failures_caught [of hello_request "JStr ''Hi''" w_no_choices
        "''sk-test''" IndexError]
    by (auto simp: hello_request_def w_no_choices_def w_hello_def env_key_simps
        IndexError_def isinstance_def)
  ultimately show ?thesis
    by simp
qed

end
